theory Spec2Isabelle
  imports Main "HOL-Library.Char_ord" "HOL-Library.List_Lexorder"
begin

section \<open>The MusicBrainz WS2 client of gomusicbrainz.go\<close>

text \<open>
  The Go file holds one client type, two setters, a shared request routine and twelve search
  methods. Go strings are byte strings and become \<open>string\<close>; Go's \<open>int\<close> becomes
  \<open>int\<close> (no arithmetic is done on limit, offset or score, so no wrap-around can show);
  a pointer that may be nil becomes an \<open>option\<close>; the \<open>error\<close> interface becomes
  \<open>error option\<close>, with \<open>None\<close> for nil.
\<close>

subsection \<open>Errors and outcomes\<close>

text \<open>
  The code declares no error type of its own: it hands on the errors of the standard library.
  The constructors name them by the call they come from, with the library's message:
  \<open>InvalidRootAddress\<close> is the error of \<open>url.Parse\<close>, \<open>RequestFailure\<close> that of
  \<open>http.NewRequest\<close>, \<open>TransportFailure\<close> that of \<open>client.Do\<close> and
  \<open>DecodeFailure\<close> that of \<open>decoder.Decode\<close>.
\<close>

datatype error =
    InvalidRootAddress string
  | RequestFailure string
  | TransportFailure string
  | DecodeFailure string

text \<open>
  A call either returns, or ends the process through \<open>log.Fatalln\<close> (which prints the error
  and exits with status 1), or panics (a nil dereference, an index out of range).
\<close>

datatype 'a outcome = Returned 'a | Fatal error | Panic

subsection \<open>Client configuration\<close>

text \<open>
  A parsed \<open>*url.URL\<close> is kept as the text its \<open>String\<close> method renders, which is all the
  client ever reads from it.
\<close>

datatype URL = URL (String: string)

record WS2Client =
  WS2RootURL :: "URL option"
  userAgentHeader :: string

text \<open>
  \<open>url.Parse\<close> belongs to the standard library and is a parameter \<open>parse\<close> of the two
  operations that call it: \<open>Inl msg\<close> is its result \<open>(nil, err)\<close>, \<open>Inr u\<close> its result
  \<open>(u, nil)\<close>; it never returns both a URL and an error.
\<close>

definition NewWS2Client ::
  "(string \<Rightarrow> string + URL) \<Rightarrow> string \<Rightarrow> string \<Rightarrow> string \<Rightarrow> string \<Rightarrow> WS2Client" where
  "NewWS2Client parse rooturl appname version contact =
     \<lparr>WS2RootURL = (case parse rooturl of Inl _ \<Rightarrow> None | Inr u \<Rightarrow> Some u),
      userAgentHeader = appname @ ''/'' @ version @ '' ( '' @ contact @ '' ) ''\<rparr>"

definition SetRootURL ::
  "(string \<Rightarrow> string + URL) \<Rightarrow> WS2Client \<Rightarrow> string \<Rightarrow> WS2Client \<times> error option" where
  "SetRootURL parse c rooturl =
     (case parse rooturl of
        Inl msg \<Rightarrow> (c\<lparr>WS2RootURL := None\<rparr>, Some (InvalidRootAddress msg))
      | Inr u \<Rightarrow> (c\<lparr>WS2RootURL := Some u\<rparr>, None))"

definition SetClientInfo :: "WS2Client \<Rightarrow> string \<Rightarrow> string \<Rightarrow> string \<Rightarrow> WS2Client" where
  "SetClientInfo c application version contact =
     c\<lparr>userAgentHeader := application @ ''/'' @ version @ '' ( '' @ contact @ '' ) ''\<rparr>"

text \<open>
  A fragment of \<open>url.Parse\<close> to run the setters on: the library first rejects every string
  holding an ASCII control byte (below 0x20, or 0x7F); this fragment accepts every other
  string as it is written.
\<close>

definition parse_rejecting_ctl :: "string \<Rightarrow> string + URL" where
  "parse_rejecting_ctl s =
     (if list_ex (\<lambda>b. (of_char b :: nat) < 32 \<or> (of_char b :: nat) = 127) s
      then Inl ''net/url: invalid control character in URL''
      else Inr (URL s))"

subsection \<open>Query parameters\<close>

text \<open>\<open>strconv.Itoa\<close>: the decimal digits of an integer, with a minus sign when negative.\<close>

definition digit :: "nat \<Rightarrow> char" where
  "digit d = char_of (48 + d)"

function decimal :: "nat \<Rightarrow> string" where
  "decimal n = (if n < 10 then [digit n] else decimal (n div 10) @ [digit (n mod 10)])"
  by pat_completeness auto
termination
  by (relation "measure id") auto

declare decimal.simps [simp del]

definition Itoa :: "int \<Rightarrow> string" where
  "Itoa i = (if i < 0 then CHR ''-'' # decimal (nat (- i)) else decimal (nat i))"

definition intParamToString :: "int \<Rightarrow> string" where
  "intParamToString i = (if i = - 1 then [] else Itoa i)"

text \<open>
  \<open>url.QueryEscape\<close>: letters, digits and \<open>- _ . ~\<close> stay, a space becomes \<open>+\<close>, every
  other byte becomes \<open>%XX\<close> in upper-case hexadecimal.
\<close>

definition shouldEscape :: "char \<Rightarrow> bool" where
  "shouldEscape c =
     (let n = (of_char c :: nat) in
      if (97 \<le> n \<and> n \<le> 122) \<or> (65 \<le> n \<and> n \<le> 90) \<or> (48 \<le> n \<and> n \<le> 57) then False
      else if c = CHR ''-'' \<or> c = CHR ''_'' \<or> c = CHR ''.'' \<or> c = CHR ''~'' then False
      else True)"

definition upperhex :: "nat \<Rightarrow> char" where
  "upperhex k = (if k < 10 then char_of (48 + k) else char_of (55 + k))"

definition escape_byte :: "char \<Rightarrow> string" where
  "escape_byte c =
     (if c = CHR '' '' then ''+''
      else if shouldEscape c
      then [CHR ''%'', upperhex ((of_char c :: nat) div 16), upperhex ((of_char c :: nat) mod 16)]
      else [c])"

definition QueryEscape :: "string \<Rightarrow> string" where
  "QueryEscape s = concat (map escape_byte s)"

text \<open>
  \<open>url.Values\<close> is a map from a key to its list of values. \<open>Encode\<close> walks the keys in
  sorted order and writes \<open>key=value\<close> for every value of every key, joined by \<open>&\<close>; a value
  that is the empty string is written like any other.
\<close>

type_synonym Values = "(string \<times> string list) list"

fun encode_values :: "string \<Rightarrow> string \<Rightarrow> string list \<Rightarrow> string" where
  "encode_values buf keyEscaped [] = buf"
| "encode_values buf keyEscaped (v # vs) =
     encode_values
       ((if buf \<noteq> [] then buf @ ''&'' else buf) @ keyEscaped @ ''='' @ QueryEscape v)
       keyEscaped vs"

fun encode_keys :: "string \<Rightarrow> Values \<Rightarrow> string" where
  "encode_keys buf [] = buf"
| "encode_keys buf ((k, vs) # kvs) = encode_keys (encode_values buf (QueryEscape k) vs) kvs"

definition Encode :: "Values \<Rightarrow> string" where
  "Encode v = (if v = [] then [] else encode_keys [] (sort_key fst v))"

text \<open>The parameters that \<open>searchRequest\<close> builds, as its map literal lists them.\<close>

definition searchParams :: "string \<Rightarrow> int \<Rightarrow> int \<Rightarrow> Values" where
  "searchParams searchTerm limit offset =
     [(''query'', [searchTerm]),
      (''limit'', [intParamToString limit]),
      (''offset'', [intParamToString offset])]"

text \<open>
  Reading a query string back, as the receiving service does: the string is cut at every
  \<open>&\<close>, and each piece at its first \<open>=\<close> into a parameter name and its (still escaped)
  value. A parameter is present when its name is among the pieces.
\<close>

fun split_on :: "char \<Rightarrow> string \<Rightarrow> string list" where
  "split_on sep [] = [[]]"
| "split_on sep (x # xs) =
     (if x = sep then [] # split_on sep xs
      else (case split_on sep xs of [] \<Rightarrow> [[x]] | piece # pieces \<Rightarrow> (x # piece) # pieces))"

definition cut_eq :: "string \<Rightarrow> string \<times> string" where
  "cut_eq s = (takeWhile (\<lambda>x. x \<noteq> CHR ''='') s, drop 1 (dropWhile (\<lambda>x. x \<noteq> CHR ''='') s))"

definition query_pairs :: "string \<Rightarrow> (string \<times> string) list" where
  "query_pairs q = map cut_eq (split_on CHR ''&'' q)"

definition query_param :: "string \<Rightarrow> string \<Rightarrow> string option" where
  "query_param name q = map_of (query_pairs q) name"

subsection \<open>The request routine\<close>

record Request =
  Method :: string
  RequestURL :: string
  RequestHeader :: "string \<rightharpoonup> string"

text \<open>
  The network and the XML decoder are the environment of the client. \<open>newRequestError\<close>
  is the check of \<open>http.NewRequest\<close> on the method and the URL text, \<open>clientDo\<close> the
  round trip (\<open>Inl msg\<close> its error, \<open>Inr body\<close> the body of the response, whatever its
  status code), \<open>xmlDecode\<close> the decoder: from the body and the destination as it stands it
  gives the error, if any, and the destination as the decoder leaves it. Whatever stops the
  decoder, a fault in the text or in the reading of the body, is the decoder's error.
\<close>

record 'w env =
  newRequestError :: "string \<Rightarrow> string \<Rightarrow> string option"
  clientDo :: "Request \<Rightarrow> string + string"
  xmlDecode :: "string \<Rightarrow> 'w \<Rightarrow> string option \<times> 'w"

definition getReqeust ::
  "'w env \<Rightarrow> WS2Client \<Rightarrow> 'w \<Rightarrow> Values \<Rightarrow> string \<Rightarrow> ('w \<times> error option) outcome" where
  "getReqeust e c data params endpoint =
     (case WS2RootURL c of
        None \<Rightarrow> Panic
      | Some u \<Rightarrow>
          let target = String u @ endpoint @ ''?'' @ Encode params in
          (case newRequestError e ''GET'' target of
             Some msg \<Rightarrow> Fatal (RequestFailure msg)
           | None \<Rightarrow>
               let req = \<lparr>Method = ''GET'', RequestURL = target,
                          RequestHeader = [''User-Agent'' \<mapsto> userAgentHeader c]\<rparr> in
               (case clientDo e req of
                  Inl msg \<Rightarrow> Fatal (TransportFailure msg)
                | Inr body \<Rightarrow>
                    (case xmlDecode e body data of
                       (Some msg, data') \<Rightarrow> Returned (data', Some (DecodeFailure msg))
                     | (None, data') \<Rightarrow> Returned (data', None)))))"

definition searchRequest ::
  "'w env \<Rightarrow> WS2Client \<Rightarrow> string \<Rightarrow> 'w \<Rightarrow> string \<Rightarrow> int \<Rightarrow> int \<Rightarrow> ('w \<times> error option) outcome"
  where
  "searchRequest e c endpoint result searchTerm limit offset =
     (let params = searchParams searchTerm limit offset in
      case getReqeust e c result params endpoint of
        Returned (result', Some err) \<Rightarrow> Returned (result', Some err)
      | Returned (result', None) \<Rightarrow> Returned (result', None)
      | Fatal err \<Rightarrow> Fatal err
      | Panic \<Rightarrow> Panic)"

subsection \<open>Wrappers and responses\<close>

text \<open>
  Modelled from the spec: the type declarations of the list wrappers, of the search responses
  and of \<open>ScoreMap\<close> are not in the source file. The spec gives a wrapper a count, an offset
  and an ordered sequence of scored pairs, each an entity with an integer score, and gives a
  response the same count and offset, the sequence of entities and a mapping from entity to
  score. The entity type is a parameter \<open>'e\<close>, compared by equality as a Go map compares its
  keys; the nine kinds of entity differ in their field names only.
\<close>

record WS2ListResponse =
  Count :: int
  Offset :: int

record 'e scored =
  Entity :: 'e
  Score :: int

record 'e listResult =
  ListHeader :: WS2ListResponse
  Items :: "'e scored list"

record 'e SearchResponse =
  ListResponse :: WS2ListResponse
  Entities :: "'e list"
  Scores :: "'e \<rightharpoonup> int"

definition zeroResult :: "'e listResult" where
  "zeroResult = \<lparr>ListHeader = \<lparr>Count = 0, Offset = 0\<rparr>, Items = []\<rparr>"

text \<open>
  The flattening loop, the same in the nine implemented methods:
  \<^verbatim>\<open>for i, v := range result.ArtistList.Artists {
      rsp.Artists = append(rsp.Artists, v.Artist)
      rsp.Scores[rsp.Artists[i]] = v.Score
  }\<close>
  The key is read back from the sequence at index \<open>i\<close>; Go panics when that index is out
  of range, which is \<open>None\<close> here.
\<close>

fun flatten_loop ::
  "nat \<Rightarrow> 'e scored list \<Rightarrow> 'e SearchResponse \<Rightarrow> 'e SearchResponse option" where
  "flatten_loop i [] rsp = Some rsp"
| "flatten_loop i (v # vs) rsp =
     (let rsp1 = rsp\<lparr>Entities := Entities rsp @ [Entity v]\<rparr> in
      if i < length (Entities rsp1)
      then flatten_loop (Suc i) vs (rsp1\<lparr>Scores := (Scores rsp1)(Entities rsp1 ! i \<mapsto> Score v)\<rparr>)
      else None)"

definition flatten :: "'e listResult \<Rightarrow> 'e SearchResponse option" where
  "flatten result =
     flatten_loop 0 (Items result)
       \<lparr>ListResponse = ListHeader result, Entities = [], Scores = Map.empty\<rparr>"

subsection \<open>The search methods\<close>

text \<open>
  Each of the nine implemented methods has the same body, for its own endpoint and its own
  wrapper: the error of \<open>searchRequest\<close> is kept aside, the response is built from the
  wrapper whether or not there was an error, and both are returned, the response behind a
  pointer that is never nil. \<open>zeroResult\<close> is the wrapper as \<^verbatim>\<open>result := artistListResult{}\<close>
  declares it.
\<close>

definition SearchAnnotation ::
  "'e listResult env \<Rightarrow> WS2Client \<Rightarrow> string \<Rightarrow> int \<Rightarrow> int \<Rightarrow>
     ('e SearchResponse option \<times> error option) outcome" where
  "SearchAnnotation e c searchTerm limit offset =
     (case searchRequest e c ''/annotation'' zeroResult searchTerm limit offset of
        Panic \<Rightarrow> Panic
      | Fatal err \<Rightarrow> Fatal err
      | Returned (result, err) \<Rightarrow>
          (case flatten result of
             None \<Rightarrow> Panic
           | Some rsp \<Rightarrow> Returned (Some rsp, err)))"

definition SearchArea ::
  "'e listResult env \<Rightarrow> WS2Client \<Rightarrow> string \<Rightarrow> int \<Rightarrow> int \<Rightarrow>
     ('e SearchResponse option \<times> error option) outcome" where
  "SearchArea e c searchTerm limit offset =
     (case searchRequest e c ''/area'' zeroResult searchTerm limit offset of
        Panic \<Rightarrow> Panic
      | Fatal err \<Rightarrow> Fatal err
      | Returned (result, err) \<Rightarrow>
          (case flatten result of
             None \<Rightarrow> Panic
           | Some rsp \<Rightarrow> Returned (Some rsp, err)))"

definition SearchArtist ::
  "'e listResult env \<Rightarrow> WS2Client \<Rightarrow> string \<Rightarrow> int \<Rightarrow> int \<Rightarrow>
     ('e SearchResponse option \<times> error option) outcome" where
  "SearchArtist e c searchTerm limit offset =
     (case searchRequest e c ''/artist'' zeroResult searchTerm limit offset of
        Panic \<Rightarrow> Panic
      | Fatal err \<Rightarrow> Fatal err
      | Returned (result, err) \<Rightarrow>
          (case flatten result of
             None \<Rightarrow> Panic
           | Some rsp \<Rightarrow> Returned (Some rsp, err)))"

definition SearchRelease ::
  "'e listResult env \<Rightarrow> WS2Client \<Rightarrow> string \<Rightarrow> int \<Rightarrow> int \<Rightarrow>
     ('e SearchResponse option \<times> error option) outcome" where
  "SearchRelease e c searchTerm limit offset =
     (case searchRequest e c ''/release'' zeroResult searchTerm limit offset of
        Panic \<Rightarrow> Panic
      | Fatal err \<Rightarrow> Fatal err
      | Returned (result, err) \<Rightarrow>
          (case flatten result of
             None \<Rightarrow> Panic
           | Some rsp \<Rightarrow> Returned (Some rsp, err)))"

definition SearchReleaseGroup ::
  "'e listResult env \<Rightarrow> WS2Client \<Rightarrow> string \<Rightarrow> int \<Rightarrow> int \<Rightarrow>
     ('e SearchResponse option \<times> error option) outcome" where
  "SearchReleaseGroup e c searchTerm limit offset =
     (case searchRequest e c ''/release-group'' zeroResult searchTerm limit offset of
        Panic \<Rightarrow> Panic
      | Fatal err \<Rightarrow> Fatal err
      | Returned (result, err) \<Rightarrow>
          (case flatten result of
             None \<Rightarrow> Panic
           | Some rsp \<Rightarrow> Returned (Some rsp, err)))"

definition SearchTag ::
  "'e listResult env \<Rightarrow> WS2Client \<Rightarrow> string \<Rightarrow> int \<Rightarrow> int \<Rightarrow>
     ('e SearchResponse option \<times> error option) outcome" where
  "SearchTag e c searchTerm limit offset =
     (case searchRequest e c ''/tag'' zeroResult searchTerm limit offset of
        Panic \<Rightarrow> Panic
      | Fatal err \<Rightarrow> Fatal err
      | Returned (result, err) \<Rightarrow>
          (case flatten result of
             None \<Rightarrow> Panic
           | Some rsp \<Rightarrow> Returned (Some rsp, err)))"

definition SearchCDStub ::
  "'e listResult env \<Rightarrow> WS2Client \<Rightarrow> string \<Rightarrow> int \<Rightarrow> int \<Rightarrow>
     ('e SearchResponse option \<times> error option) outcome" where
  "SearchCDStub e c searchTerm limit offset =
     (case searchRequest e c ''/cdstub'' zeroResult searchTerm limit offset of
        Panic \<Rightarrow> Panic
      | Fatal err \<Rightarrow> Fatal err
      | Returned (result, err) \<Rightarrow>
          (case flatten result of
             None \<Rightarrow> Panic
           | Some rsp \<Rightarrow> Returned (Some rsp, err)))"

definition SearchLabel ::
  "'e listResult env \<Rightarrow> WS2Client \<Rightarrow> string \<Rightarrow> int \<Rightarrow> int \<Rightarrow>
     ('e SearchResponse option \<times> error option) outcome" where
  "SearchLabel e c searchTerm limit offset =
     (case searchRequest e c ''/label'' zeroResult searchTerm limit offset of
        Panic \<Rightarrow> Panic
      | Fatal err \<Rightarrow> Fatal err
      | Returned (result, err) \<Rightarrow>
          (case flatten result of
             None \<Rightarrow> Panic
           | Some rsp \<Rightarrow> Returned (Some rsp, err)))"

definition SearchPlace ::
  "'e listResult env \<Rightarrow> WS2Client \<Rightarrow> string \<Rightarrow> int \<Rightarrow> int \<Rightarrow>
     ('e SearchResponse option \<times> error option) outcome" where
  "SearchPlace e c searchTerm limit offset =
     (case searchRequest e c ''/place'' zeroResult searchTerm limit offset of
        Panic \<Rightarrow> Panic
      | Fatal err \<Rightarrow> Fatal err
      | Returned (result, err) \<Rightarrow>
          (case flatten result of
             None \<Rightarrow> Panic
           | Some rsp \<Rightarrow> Returned (Some rsp, err)))"

text \<open>The body of the nine, with the endpoint as its parameter, to reason about them at once.\<close>

definition search ::
  "string \<Rightarrow> 'e listResult env \<Rightarrow> WS2Client \<Rightarrow> string \<Rightarrow> int \<Rightarrow> int \<Rightarrow>
     ('e SearchResponse option \<times> error option) outcome" where
  "search endpoint e c searchTerm limit offset =
     (case searchRequest e c endpoint zeroResult searchTerm limit offset of
        Panic \<Rightarrow> Panic
      | Fatal err \<Rightarrow> Fatal err
      | Returned (result, err) \<Rightarrow>
          (case flatten result of
             None \<Rightarrow> Panic
           | Some rsp \<Rightarrow> Returned (Some rsp, err)))"

text \<open>The three methods whose body is \<^verbatim>\<open>return nil, nil\<close>.\<close>

definition SearchFreedb ::
  "'e listResult env \<Rightarrow> WS2Client \<Rightarrow> string \<Rightarrow> int \<Rightarrow> int \<Rightarrow>
     ('e SearchResponse option \<times> error option) outcome" where
  "SearchFreedb e c searchTerm limit offset = Returned (None, None)"

definition SearchRecording ::
  "'e listResult env \<Rightarrow> WS2Client \<Rightarrow> string \<Rightarrow> int \<Rightarrow> int \<Rightarrow>
     ('e SearchResponse option \<times> error option) outcome" where
  "SearchRecording e c searchTerm limit offset = Returned (None, None)"

definition SearchWork ::
  "'e listResult env \<Rightarrow> WS2Client \<Rightarrow> string \<Rightarrow> int \<Rightarrow> int \<Rightarrow>
     ('e SearchResponse option \<times> error option) outcome" where
  "SearchWork e c searchTerm limit offset = Returned (None, None)"

text \<open>The implemented methods with their endpoints, to speak of all nine at once.\<close>

definition implemented ::
  "(string \<times> ('e listResult env \<Rightarrow> WS2Client \<Rightarrow> string \<Rightarrow> int \<Rightarrow> int \<Rightarrow>
     ('e SearchResponse option \<times> error option) outcome)) list" where
  "implemented =
     [(''/annotation'', SearchAnnotation), (''/area'', SearchArea), (''/artist'', SearchArtist),
      (''/release'', SearchRelease), (''/release-group'', SearchReleaseGroup),
      (''/tag'', SearchTag), (''/cdstub'', SearchCDStub), (''/label'', SearchLabel),
      (''/place'', SearchPlace)]"

definition stubs ::
  "('e listResult env \<Rightarrow> WS2Client \<Rightarrow> string \<Rightarrow> int \<Rightarrow> int \<Rightarrow>
     ('e SearchResponse option \<times> error option) outcome) list" where
  "stubs = [SearchFreedb, SearchRecording, SearchWork]"

text \<open>
  The request a search hands to the network when the root URL is \<open>u\<close>: the \<open>req\<close> of
  \<open>getReqeust\<close>, for the parameters of \<open>searchRequest\<close>.
\<close>

definition issued :: "URL \<Rightarrow> WS2Client \<Rightarrow> string \<Rightarrow> string \<Rightarrow> int \<Rightarrow> int \<Rightarrow> Request" where
  "issued u c endpoint searchTerm limit offset =
     \<lparr>Method = ''GET'',
      RequestURL = String u @ endpoint @ ''?'' @ Encode (searchParams searchTerm limit offset),
      RequestHeader = [''User-Agent'' \<mapsto> userAgentHeader c]\<rparr>"

subsection \<open>A client and three environments to run the methods in\<close>

definition demo_client :: WS2Client where
  "demo_client =
     NewWS2Client parse_rejecting_ctl
       ''https://musicbrainz.org/ws/2'' ''testapp'' ''1.0'' ''test@example.com''"

text \<open>
  A page of three scored entries, an entity standing for itself by its name; the first and
  the third are the same entity. Its response lists the score mapping as the loop writes it:
  100 for \<open>Nirvana\<close>, 62 for \<open>Nirvana UK\<close>, then 48 for \<open>Nirvana\<close> over the 100.
\<close>

definition demo_result :: "string listResult" where
  "demo_result =
     \<lparr>ListHeader = \<lparr>Count = 3, Offset = 0\<rparr>,
      Items = [\<lparr>Entity = ''Nirvana'', Score = 100\<rparr>,
               \<lparr>Entity = ''Nirvana UK'', Score = 62\<rparr>,
               \<lparr>Entity = ''Nirvana'', Score = 48\<rparr>]\<rparr>"

definition demo_response :: "string SearchResponse" where
  "demo_response =
     \<lparr>ListResponse = \<lparr>Count = 3, Offset = 0\<rparr>,
      Entities = [''Nirvana'', ''Nirvana UK'', ''Nirvana''],
      Scores = [''Nirvana'' \<mapsto> 100, ''Nirvana UK'' \<mapsto> 62, ''Nirvana'' \<mapsto> 48]\<rparr>"

text \<open>The service answers and the page decodes.\<close>

definition env_answering :: "string listResult env" where
  "env_answering =
     \<lparr>newRequestError = (\<lambda>method target. None),
      clientDo = (\<lambda>req. Inr ''<metadata><artist-list count=3 offset=0>...</artist-list></metadata>''),
      xmlDecode = (\<lambda>body data. (None, demo_result))\<rparr>"

text \<open>
  The service answers with a body cut off inside its second entry: the decoder reports a
  syntax error, and the destination holds what was read before it.
\<close>

definition truncated_result :: "string listResult" where
  "truncated_result =
     \<lparr>ListHeader = \<lparr>Count = 3, Offset = 0\<rparr>, Items = [\<lparr>Entity = ''Nirvana'', Score = 100\<rparr>]\<rparr>"

definition truncated_response :: "string SearchResponse" where
  "truncated_response =
     \<lparr>ListResponse = \<lparr>Count = 3, Offset = 0\<rparr>,
      Entities = [''Nirvana''],
      Scores = [''Nirvana'' \<mapsto> 100]\<rparr>"

definition env_truncated :: "string listResult env" where
  "env_truncated =
     \<lparr>newRequestError = (\<lambda>method target. None),
      clientDo = (\<lambda>req. Inr ''<metadata><artist-list count=3 offset=0><artist score=100>...</artist><art''),
      xmlDecode = (\<lambda>body data. (Some ''XML syntax error on line 1: unexpected EOF'', truncated_result))\<rparr>"

text \<open>The service cannot be reached.\<close>

definition env_unreachable :: "string listResult env" where
  "env_unreachable =
     \<lparr>newRequestError = (\<lambda>method target. None),
      clientDo = (\<lambda>req. Inl ''dial tcp: connection refused''),
      xmlDecode = (\<lambda>body data. (None, data))\<rparr>"

section \<open>Properties\<close>

subsection \<open>Facts about the query string\<close>

lemma of_char_digit: "d < 10 \<Longrightarrow> (of_char (digit d) :: nat) = 48 + d"
  by (simp add: digit_def)

lemma escape_byte_digit: "d < 10 \<Longrightarrow> escape_byte (digit d) = [digit d]"
proof -
  assume d: "d < 10"
  have "digit d \<noteq> CHR '' ''"
  proof
    assume "digit d = CHR '' ''"
    then have "(of_char (digit d) :: nat) = of_char CHR '' ''" by simp
    with d show False by (simp add: of_char_digit)
  qed
  then show ?thesis using d by (simp add: escape_byte_def shouldEscape_def of_char_digit)
qed

lemma digit_not_amp: "d < 10 \<Longrightarrow> digit d \<noteq> CHR ''&''"
proof
  assume d: "d < 10" and "digit d = CHR ''&''"
  then have "(of_char (digit d) :: nat) = of_char CHR ''&''" by simp
  with d show False by (simp add: of_char_digit)
qed

lemma set_decimal: "c \<in> set (decimal n) \<Longrightarrow> \<exists>d<10. c = digit d"
proof (induction n rule: decimal.induct)
  case (1 n)
  show ?case
  proof (cases "n < 10")
    case True
    with "1.prems" show ?thesis by (auto simp: decimal.simps [of n])
  next
    case False
    with "1.prems" have "c \<in> set (decimal (n div 10)) \<or> c = digit (n mod 10)"
      by (auto simp: decimal.simps [of n])
    then show ?thesis
    proof
      assume "c \<in> set (decimal (n div 10))"
      with False "1.IH" show ?thesis by simp
    next
      assume "c = digit (n mod 10)"
      moreover have "n mod 10 < 10" by simp
      ultimately show ?thesis by blast
    qed
  qed
qed

lemma set_Itoa: "c \<in> set (Itoa i) \<Longrightarrow> c = CHR ''-'' \<or> (\<exists>d<10. c = digit d)"
  by (auto simp: Itoa_def dest: set_decimal split: if_splits)

lemma escape_byte_Itoa: "c \<in> set (Itoa i) \<Longrightarrow> escape_byte c = [c]"
  using set_Itoa [of c i]
  by (auto simp: escape_byte_digit) (simp add: escape_byte_def shouldEscape_def)

lemma amp_notin_Itoa: "CHR ''&'' \<notin> set (Itoa i)"
proof
  assume "CHR ''&'' \<in> set (Itoa i)"
  then have "CHR ''&'' = CHR ''-'' \<or> (\<exists>d<10. CHR ''&'' = digit d)" by (rule set_Itoa)
  then obtain d where "d < 10" "digit d = CHR ''&''" by auto
  then show False using digit_not_amp by blast
qed

lemma QueryEscape_unchanged:
  "(\<And>c. c \<in> set s \<Longrightarrow> escape_byte c = [c]) \<Longrightarrow> QueryEscape s = s"
  by (induction s) (simp_all add: QueryEscape_def)

lemma QueryEscape_intParam: "QueryEscape (intParamToString i) = intParamToString i"
  by (simp add: intParamToString_def QueryEscape_unchanged escape_byte_Itoa)
    (simp add: QueryEscape_def)

lemma amp_notin_intParam: "CHR ''&'' \<notin> set (intParamToString i)"
  by (simp add: intParamToString_def amp_notin_Itoa)

lemma upperhex_not_amp: "CHR ''&'' \<noteq> upperhex k" if "k < 16"
proof
  assume "CHR ''&'' = upperhex k"
  then have "(of_char (upperhex k) :: nat) = of_char CHR ''&''" by simp
  with that show False by (simp add: upperhex_def split: if_splits)
qed

lemma of_char_less_256: "(of_char c :: nat) < 256"
  by (cases c) simp

lemma amp_notin_escape_byte: "CHR ''&'' \<notin> set (escape_byte c)"
proof -
  have "(of_char c :: nat) div 16 < 16" using of_char_less_256 [of c] by arith
  moreover have "(of_char c :: nat) mod 16 < 16" by simp
  moreover have "shouldEscape CHR ''&''" by (simp add: shouldEscape_def)
  ultimately show ?thesis
    by (auto simp: escape_byte_def upperhex_not_amp)
qed

lemma amp_notin_QueryEscape: "CHR ''&'' \<notin> set (QueryEscape s)"
  by (simp add: QueryEscape_def amp_notin_escape_byte)

lemma split_on_none: "sep \<notin> set a \<Longrightarrow> split_on sep a = [a]"
  by (induction a) auto

lemma split_on_first: "sep \<notin> set a \<Longrightarrow> split_on sep (a @ sep # b) = a # split_on sep b"
  by (induction a) auto

lemma sorted_searchParams:
  "sort_key fst (searchParams t l off) =
     [(''limit'', [intParamToString l]), (''offset'', [intParamToString off]), (''query'', [t])]"
  by (simp add: searchParams_def)

lemma QueryEscape_keys:
  "QueryEscape ''limit'' = ''limit''"
  "QueryEscape ''offset'' = ''offset''"
  "QueryEscape ''query'' = ''query''"
  by (simp_all add: QueryEscape_def escape_byte_def shouldEscape_def)

lemma Encode_searchParams:
  "Encode (searchParams t l off) =
     ''limit='' @ intParamToString l @ ''&offset='' @ intParamToString off @
     ''&query='' @ QueryEscape t"
proof -
  have "searchParams t l off \<noteq> []" by (simp add: searchParams_def)
  then show ?thesis
    by (simp add: Encode_def sorted_searchParams QueryEscape_keys QueryEscape_intParam)
qed

lemma query_pairs_three:
  assumes "CHR ''&'' \<notin> set a" "CHR ''&'' \<notin> set b" "CHR ''&'' \<notin> set q"
  shows "query_pairs (''limit='' @ a @ ''&offset='' @ b @ ''&query='' @ q) =
     [(''limit'', a), (''offset'', b), (''query'', q)]"
proof -
  have 1: "split_on CHR ''&''
        ((''limit='' @ a) @ CHR ''&'' # (''offset='' @ b) @ CHR ''&'' # (''query='' @ q))
      = (''limit='' @ a) # split_on CHR ''&'' ((''offset='' @ b) @ CHR ''&'' # (''query='' @ q))"
    using assms(1) by (intro split_on_first) simp
  have 2: "split_on CHR ''&'' ((''offset='' @ b) @ CHR ''&'' # (''query='' @ q))
      = (''offset='' @ b) # split_on CHR ''&'' (''query='' @ q)"
    using assms(2) by (intro split_on_first) simp
  have 3: "split_on CHR ''&'' (''query='' @ q) = [''query='' @ q]"
    using assms(3) by (intro split_on_none) simp
  have "split_on CHR ''&'' (''limit='' @ a @ ''&offset='' @ b @ ''&query='' @ q)
      = [''limit='' @ a, ''offset='' @ b, ''query='' @ q]"
    using 1 2 3 by simp
  then show ?thesis
    by (simp add: query_pairs_def cut_eq_def)
qed

lemma query_pairs_search:
  "query_pairs (Encode (searchParams t l off)) =
     [(''limit'', intParamToString l), (''offset'', intParamToString off),
      (''query'', QueryEscape t)]"
  unfolding Encode_searchParams
  by (rule query_pairs_three) (rule amp_notin_intParam amp_notin_QueryEscape)+

subsection \<open>Facts about the flattening loop\<close>

lemma scores_step:
  "(S(k \<mapsto> s)) ++ map_of (rev ps) = S ++ map_of (rev ((k, s) # ps))"
  by (rule ext) (simp add: map_add_def split: option.splits)

lemma flatten_loop_eq:
  "length (Entities rsp) = i \<Longrightarrow>
   flatten_loop i vs rsp =
     Some (rsp\<lparr>Entities := Entities rsp @ map Entity vs,
               Scores := Scores rsp ++ map_of (rev (map (\<lambda>x. (Entity x, Score x)) vs))\<rparr>)"
proof (induction vs arbitrary: i rsp)
  case Nil
  then show ?case by simp
next
  case (Cons v vs)
  let ?r = "rsp\<lparr>Entities := Entities rsp @ [Entity v],
                 Scores := (Scores rsp)(Entity v \<mapsto> Score v)\<rparr>"
  have len: "length (Entities ?r) = Suc i"
    using Cons.prems by simp
  have step: "flatten_loop i (v # vs) rsp = flatten_loop (Suc i) vs ?r"
    using Cons.prems by (simp add: Let_def nth_append)
  have "flatten_loop (Suc i) vs ?r =
     Some (?r\<lparr>Entities := Entities ?r @ map Entity vs,
               Scores := Scores ?r ++ map_of (rev (map (\<lambda>x. (Entity x, Score x)) vs))\<rparr>)"
    by (rule Cons.IH [OF len])
  also have "\<dots> = Some (rsp\<lparr>Entities := Entities rsp @ map Entity (v # vs),
               Scores := Scores rsp ++ map_of (rev (map (\<lambda>x. (Entity x, Score x)) (v # vs)))\<rparr>)"
    using scores_step [of "Scores rsp" "Entity v" "Score v" "map (\<lambda>x. (Entity x, Score x)) vs"]
    by simp
  finally show ?case
    unfolding step .
qed

lemma flatten_eq:
  "flatten w = Some \<lparr>ListResponse = ListHeader w, Entities = map Entity (Items w),
                     Scores = map_of (rev (map (\<lambda>x. (Entity x, Score x)) (Items w)))\<rparr>"
  by (simp add: flatten_def flatten_loop_eq)

lemma dom_scores:
  "dom (map_of (rev (map (\<lambda>x. (Entity x, Score x)) vs))) = set (map Entity vs)"
  by (simp add: dom_map_of_conv_image_fst image_image)

lemma last_score:
  assumes "Entity v \<notin> Entity ` set ys"
  shows "map_of (rev (map (\<lambda>x. (Entity x, Score x)) (xs @ v # ys))) (Entity v) = Some (Score v)"
proof -
  have "map_of (rev (map (\<lambda>x. (Entity x, Score x)) ys)) (Entity v) = None"
    using assms by (simp add: map_of_eq_None_iff image_image)
  then show ?thesis
    by (simp add: map_add_def)
qed

lemma once_score:
  assumes c: "count_list (map Entity vs) (Entity v) = 1" and m: "v \<in> set vs"
  shows "map_of (rev (map (\<lambda>x. (Entity x, Score x)) vs)) (Entity v) = Some (Score v)"
proof -
  from m obtain xs ys where s: "vs = xs @ v # ys" by (auto simp: in_set_conv_decomp)
  with c have "count_list (map Entity ys) (Entity v) = 0" by simp
  then have "Entity v \<notin> Entity ` set ys" by (simp add: count_list_0_iff)
  then show ?thesis unfolding s by (rule last_score)
qed

subsection \<open>Facts about the search methods\<close>

lemma implemented_search: "(ep, m) \<in> set implemented \<Longrightarrow> m = search ep"
  by (auto simp: implemented_def fun_eq_iff search_def SearchAnnotation_def SearchArea_def
      SearchArtist_def SearchRelease_def SearchReleaseGroup_def SearchTag_def SearchCDStub_def
      SearchLabel_def SearchPlace_def)

lemma SearchArtist_search: "SearchArtist = search ''/artist''"
  using implemented_search [of "''/artist''" SearchArtist] by (simp add: implemented_def)

lemma artist_implemented: "(''/artist'', SearchArtist) \<in> set implemented"
  by (simp add: implemented_def)

lemma searchRequest_issued:
  assumes "WS2RootURL c = Some u"
    and "newRequestError e ''GET'' (RequestURL (issued u c ep t l off)) = None"
  shows "searchRequest e c ep data t l off =
     (case clientDo e (issued u c ep t l off) of
        Inl msg \<Rightarrow> Fatal (TransportFailure msg)
      | Inr body \<Rightarrow>
          Returned (snd (xmlDecode e body data),
                    map_option DecodeFailure (fst (xmlDecode e body data))))"
  using assms
  by (simp add: searchRequest_def getReqeust_def issued_def Let_def
      split: sum.splits prod.splits option.splits)

lemma search_issued:
  assumes "WS2RootURL c = Some u"
    and "newRequestError e ''GET'' (RequestURL (issued u c ep t l off)) = None"
  shows "search ep e c t l off =
     (case clientDo e (issued u c ep t l off) of
        Inl msg \<Rightarrow> Fatal (TransportFailure msg)
      | Inr body \<Rightarrow>
          Returned (flatten (snd (xmlDecode e body zeroResult)),
                    map_option DecodeFailure (fst (xmlDecode e body zeroResult))))"
  by (simp add: search_def searchRequest_issued [OF assms] flatten_eq split: sum.splits)

lemma search_Returned:
  "search ep e c t l off = Returned (r, err) \<Longrightarrow> \<exists>w. r = flatten w"
  by (auto simp: search_def split: outcome.splits option.splits prod.splits)

lemma search_error:
  "search ep e c t l off = Returned (r, Some err) \<Longrightarrow> \<exists>msg. err = DecodeFailure msg"
  by (auto simp: search_def searchRequest_def getReqeust_def Let_def
      split: outcome.splits option.splits prod.splits sum.splits)

lemma demo_client_eq:
  "demo_client = \<lparr>WS2RootURL = Some (URL ''https://musicbrainz.org/ws/2''),
                  userAgentHeader = ''testapp/1.0 ( test@example.com ) ''\<rparr>"
  by (simp add: demo_client_def NewWS2Client_def parse_rejecting_ctl_def)

lemma flatten_demo_result: "flatten demo_result = Some demo_response"
  by (simp add: flatten_def demo_result_def demo_response_def)

lemma flatten_truncated_result: "flatten truncated_result = Some truncated_response"
  by (simp add: flatten_def truncated_result_def truncated_response_def)

lemma run_answering:
  "SearchArtist env_answering demo_client ''Nirvana'' 5 (- 1) = Returned (Some demo_response, None)"
proof -
  have "WS2RootURL demo_client = Some (URL ''https://musicbrainz.org/ws/2'')"
    by (simp add: demo_client_eq)
  moreover have "newRequestError env_answering ''GET''
      (RequestURL (issued (URL ''https://musicbrainz.org/ws/2'') demo_client ''/artist'' ''Nirvana'' 5 (- 1))) = None"
    by (simp add: env_answering_def)
  ultimately show ?thesis
    unfolding SearchArtist_search
    by (simp add: search_issued) (simp add: env_answering_def flatten_demo_result)
qed

lemma run_truncated:
  "SearchArtist env_truncated demo_client ''Nirvana'' 5 (- 1) =
     Returned (Some truncated_response,
               Some (DecodeFailure ''XML syntax error on line 1: unexpected EOF''))"
proof -
  have "WS2RootURL demo_client = Some (URL ''https://musicbrainz.org/ws/2'')"
    by (simp add: demo_client_eq)
  moreover have "newRequestError env_truncated ''GET''
      (RequestURL (issued (URL ''https://musicbrainz.org/ws/2'') demo_client ''/artist'' ''Nirvana'' 5 (- 1))) = None"
    by (simp add: env_truncated_def)
  ultimately show ?thesis
    unfolding SearchArtist_search
    by (simp add: search_issued) (simp add: env_truncated_def flatten_truncated_result)
qed

section \<open>The claims\<close>

text \<open>
  C1, as the code has it. The query string of the request a search issues always carries
  the parameters \<open>limit\<close> and \<open>offset\<close>: with the empty value when the argument is \<open>-1\<close>,
  with the decimal string of the argument for every other integer. The parameter is never
  left out, because \<open>Encode\<close> writes \<open>key=\<close> for an empty value.
\<close>

theorem search_query_limit_offset:
  "RequestURL (issued u c ep t l off) = String u @ ep @ ''?'' @ Encode (searchParams t l off) \<and>
   query_param ''limit'' (Encode (searchParams t l off)) = Some (if l = - 1 then [] else Itoa l) \<and>
   query_param ''offset'' (Encode (searchParams t l off)) = Some (if off = - 1 then [] else Itoa off)"
  by (simp add: issued_def query_param_def query_pairs_search intParamToString_def)

text \<open>
  The theorem at limit 0 and offset \<open>-7\<close>: both are sent as they are.
\<close>

theorem search_query_limit_offset_witness:
  "query_param ''limit'' (Encode (searchParams ''Nirvana'' 0 (- 7))) = Some ''0'' \<and>
   query_param ''offset'' (Encode (searchParams ''Nirvana'' 0 (- 7))) = Some ''-7''"
proof -
  have "Itoa 0 = ''0''" and "Itoa (- 7) = ''-7''" by code_simp+
  then show ?thesis
    using search_query_limit_offset [of "URL ''https://musicbrainz.org/ws/2''" demo_client
        "''/artist''" "''Nirvana''" 0 "- 7"]
    by simp
qed

text \<open>
  C1 as the spec words it asks that a parameter given as \<open>-1\<close> be absent from the query
  string. For the term \<open>Nirvana\<close>, limit 5 and offset \<open>-1\<close> the query string is
  \<open>limit=5&offset=&query=Nirvana\<close>: the offset is there, with an empty value.
\<close>

theorem sentinel_not_omitted_counterexample:
  "Encode (searchParams ''Nirvana'' 5 (- 1)) = ''limit=5&offset=&query=Nirvana'' \<and>
   query_param ''offset'' (Encode (searchParams ''Nirvana'' 5 (- 1))) = Some []"
proof -
  have "Encode (searchParams ''Nirvana'' 5 (- 1)) = ''limit=5&offset=&query=Nirvana''"
    by code_simp
  then show ?thesis
    by (simp add: query_param_def query_pairs_def cut_eq_def)
qed

text \<open>
  C2, as the code has it. When the decoder reports an error and leaves the wrapper \<open>w\<close>,
  each of the nine implemented methods returns that error together with a response that is
  not nil: the flattening of \<open>w\<close>, whatever the decoder had read into it.
\<close>

theorem decode_failure_returns_response:
  assumes "(ep, m) \<in> set implemented"
    and "WS2RootURL c = Some u"
    and "newRequestError e ''GET'' (RequestURL (issued u c ep t l off)) = None"
    and "clientDo e (issued u c ep t l off) = Inr body"
    and "xmlDecode e body zeroResult = (Some msg, w)"
  shows "flatten w \<noteq> None \<and> m e c t l off = Returned (flatten w, Some (DecodeFailure msg))"
proof -
  have "m = search ep" using assms(1) by (rule implemented_search)
  then have "m e c t l off = Returned (flatten w, Some (DecodeFailure msg))"
    using assms(4,5) by (simp add: search_issued [OF assms(2,3)])
  moreover have "flatten w \<noteq> None" by (simp add: flatten_eq)
  ultimately show ?thesis by simp
qed

text \<open>
  The theorem on a body cut off inside its second entry.
\<close>

theorem decode_failure_returns_response_witness:
  "SearchArtist env_truncated demo_client ''Nirvana'' 5 (- 1) =
     Returned (flatten truncated_result,
               Some (DecodeFailure ''XML syntax error on line 1: unexpected EOF'')) \<and>
   flatten truncated_result = Some truncated_response"
proof -
  have r: "WS2RootURL demo_client = Some (URL ''https://musicbrainz.org/ws/2'')"
    by (simp add: demo_client_eq)
  have n: "newRequestError env_truncated ''GET''
      (RequestURL (issued (URL ''https://musicbrainz.org/ws/2'') demo_client ''/artist''
         ''Nirvana'' 5 (- 1))) = None"
    by (simp add: env_truncated_def)
  have d: "clientDo env_truncated
      (issued (URL ''https://musicbrainz.org/ws/2'') demo_client ''/artist'' ''Nirvana'' 5 (- 1))
      = Inr ''<metadata><artist-list count=3 offset=0><artist score=100>...</artist><art''"
    by (simp add: env_truncated_def)
  have x: "xmlDecode env_truncated
      ''<metadata><artist-list count=3 offset=0><artist score=100>...</artist><art'' zeroResult
      = (Some ''XML syntax error on line 1: unexpected EOF'', truncated_result)"
    by (simp add: env_truncated_def)
  from decode_failure_returns_response [OF artist_implemented r n d x] flatten_truncated_result
  show ?thesis by simp
qed

text \<open>
  C2 as the spec words it asks for a nil response next to the decode error. On the body
  cut off inside its second entry, \<open>SearchArtist\<close> returns the error and a response holding
  the one entry that was read.
\<close>

theorem decode_failure_response_not_nil_counterexample:
  "SearchArtist env_truncated demo_client ''Nirvana'' 5 (- 1) =
     Returned (Some truncated_response,
               Some (DecodeFailure ''XML syntax error on line 1: unexpected EOF'')) \<and>
   SearchArtist env_truncated demo_client ''Nirvana'' 5 (- 1) \<noteq>
     Returned (None, Some (DecodeFailure ''XML syntax error on line 1: unexpected EOF''))"
  by (simp add: run_truncated)

text \<open>
  C3, as the code has it. When the address does not parse, \<open>SetRootURL\<close> reports the
  parse error and the root URL of the client becomes nil; the identification string is kept.
\<close>

theorem SetRootURL_failure_clears_root:
  "parse rooturl = Inl msg \<Longrightarrow>
   SetRootURL parse c rooturl = (c\<lparr>WS2RootURL := None\<rparr>, Some (InvalidRootAddress msg))"
  by (simp add: SetRootURL_def)

text \<open>
  The theorem on an address that is the single control byte 0x01.
\<close>

theorem SetRootURL_failure_clears_root_witness:
  "parse_rejecting_ctl [CHR 0x01] = Inl ''net/url: invalid control character in URL'' \<and>
   SetRootURL parse_rejecting_ctl demo_client [CHR 0x01] =
     (demo_client\<lparr>WS2RootURL := None\<rparr>,
      Some (InvalidRootAddress ''net/url: invalid control character in URL''))"
proof -
  have p: "parse_rejecting_ctl [CHR 0x01] = Inl ''net/url: invalid control character in URL''"
    by (simp add: parse_rejecting_ctl_def)
  from SetRootURL_failure_clears_root
    [where parse = parse_rejecting_ctl and rooturl = "[CHR 0x01]" and c = demo_client, OF p] p
  show ?thesis by simp
qed

text \<open>
  C3 as the spec words it asks that the root URL be left as it was. The client built for
  \<open>https://musicbrainz.org/ws/2\<close> has lost its root URL after the failed call.
\<close>

theorem SetRootURL_failure_changes_root_counterexample:
  "WS2RootURL demo_client = Some (URL ''https://musicbrainz.org/ws/2'') \<and>
   snd (SetRootURL parse_rejecting_ctl demo_client [CHR 0x01]) =
     Some (InvalidRootAddress ''net/url: invalid control character in URL'') \<and>
   WS2RootURL (fst (SetRootURL parse_rejecting_ctl demo_client [CHR 0x01])) = None"
  by (simp add: demo_client_eq SetRootURL_def parse_rejecting_ctl_def)

text \<open>
  C4. When the body decodes without error into a wrapper \<open>w\<close>, each of the nine
  implemented methods returns a response whose entities are those of the entries of \<open>w\<close>,
  as many and in the same order, and whose score mapping has as many keys as there are
  distinct entities in that sequence.
\<close>

theorem flatten_keeps_order_and_counts_distinct:
  assumes "(ep, m) \<in> set implemented"
    and "WS2RootURL c = Some u"
    and "newRequestError e ''GET'' (RequestURL (issued u c ep t l off)) = None"
    and "clientDo e (issued u c ep t l off) = Inr body"
    and "xmlDecode e body zeroResult = (None, w)"
  shows "\<exists>rsp. m e c t l off = Returned (Some rsp, None) \<and>
           ListResponse rsp = ListHeader w \<and>
           Entities rsp = map Entity (Items w) \<and>
           length (Entities rsp) = length (Items w) \<and>
           card (dom (Scores rsp)) = card (set (Entities rsp))"
proof -
  let ?rsp = "\<lparr>ListResponse = ListHeader w, Entities = map Entity (Items w),
               Scores = map_of (rev (map (\<lambda>x. (Entity x, Score x)) (Items w)))\<rparr>"
  have "m = search ep" using assms(1) by (rule implemented_search)
  then have "m e c t l off = Returned (Some ?rsp, None)"
    using assms(4,5) by (simp add: search_issued [OF assms(2,3)] flatten_eq)
  moreover have "dom (Scores ?rsp) = set (Entities ?rsp)"
    using dom_scores [of "Items w"] by simp
  ultimately show ?thesis by (intro exI [of _ ?rsp]) simp
qed

text \<open>
  The theorem on a page of three entries, two of them the same entity.
\<close>

theorem flatten_keeps_order_and_counts_distinct_witness:
  "SearchArtist env_answering demo_client ''Nirvana'' 5 (- 1) = Returned (Some demo_response, None) \<and>
   Entities demo_response = map Entity (Items demo_result) \<and>
   length (Entities demo_response) = 3 \<and>
   card (dom (Scores demo_response)) = card (set (Entities demo_response))"
proof -
  have r: "WS2RootURL demo_client = Some (URL ''https://musicbrainz.org/ws/2'')"
    by (simp add: demo_client_eq)
  have n: "newRequestError env_answering ''GET''
      (RequestURL (issued (URL ''https://musicbrainz.org/ws/2'') demo_client ''/artist''
         ''Nirvana'' 5 (- 1))) = None"
    by (simp add: env_answering_def)
  have d: "clientDo env_answering
      (issued (URL ''https://musicbrainz.org/ws/2'') demo_client ''/artist'' ''Nirvana'' 5 (- 1))
      = Inr ''<metadata><artist-list count=3 offset=0>...</artist-list></metadata>''"
    by (simp add: env_answering_def)
  have x: "xmlDecode env_answering
      ''<metadata><artist-list count=3 offset=0>...</artist-list></metadata>'' zeroResult
      = (None, demo_result)"
    by (simp add: env_answering_def)
  from flatten_keeps_order_and_counts_distinct [OF artist_implemented r n d x]
  obtain rsp where
    1: "SearchArtist env_answering demo_client ''Nirvana'' 5 (- 1) = Returned (Some rsp, None)"
    and 2: "Entities rsp = map Entity (Items demo_result)"
    and 3: "length (Entities rsp) = length (Items demo_result)"
    and 4: "card (dom (Scores rsp)) = card (set (Entities rsp))"
    by blast
  from 1 have "rsp = demo_response" by (simp add: run_answering)
  with 1 2 3 4 show ?thesis by (simp add: demo_result_def)
qed

text \<open>
  C5. When an entity occurs more than once among the entries, and \<open>v\<close> is its last
  occurrence, the score mapping holds the score of \<open>v\<close> for it, while the entity sequence
  keeps every occurrence.
\<close>

theorem duplicate_entity_keeps_last_score:
  assumes "Items w = xs @ v # ys"
    and "Entity v \<in> Entity ` set xs"
    and "Entity v \<notin> Entity ` set ys"
  shows "\<exists>rsp. flatten w = Some rsp \<and>
           Scores rsp (Entity v) = Some (Score v) \<and>
           Entities rsp = map Entity (Items w) \<and>
           2 \<le> count_list (Entities rsp) (Entity v)"
proof -
  let ?rsp = "\<lparr>ListResponse = ListHeader w, Entities = map Entity (Items w),
               Scores = map_of (rev (map (\<lambda>x. (Entity x, Score x)) (Items w)))\<rparr>"
  have "Scores ?rsp (Entity v) = Some (Score v)"
    using last_score [OF assms(3), of xs] assms(1) by simp
  moreover have "count_list (map Entity xs) (Entity v) \<noteq> 0"
    using assms(2) by (simp add: count_list_0_iff)
  then have "2 \<le> count_list (Entities ?rsp) (Entity v)"
    using assms(1) by simp
  ultimately show ?thesis
    by (intro exI [of _ ?rsp]) (simp add: flatten_eq)
qed

text \<open>
  The theorem on the page of three entries: \<open>Nirvana\<close> is scored 100 and then 48, and
  48 is kept.
\<close>

theorem duplicate_entity_keeps_last_score_witness:
  "flatten demo_result = Some demo_response \<and>
   Scores demo_response ''Nirvana'' = Some 48 \<and>
   Entities demo_response = [''Nirvana'', ''Nirvana UK'', ''Nirvana''] \<and>
   count_list (Entities demo_response) ''Nirvana'' = 2"
proof -
  have "Items demo_result =
      [\<lparr>Entity = ''Nirvana'', Score = 100\<rparr>, \<lparr>Entity = ''Nirvana UK'', Score = 62\<rparr>]
      @ \<lparr>Entity = ''Nirvana'', Score = 48\<rparr> # []"
    by (simp add: demo_result_def)
  from duplicate_entity_keeps_last_score [OF this]
  obtain rsp where f: "flatten demo_result = Some rsp" and s: "Scores rsp ''Nirvana'' = Some 48"
    by auto
  from f have e: "rsp = demo_response"
    by (simp add: flatten_demo_result)
  have "Entities demo_response = [''Nirvana'', ''Nirvana UK'', ''Nirvana'']"
    and "count_list (Entities demo_response) ''Nirvana'' = 2"
    by (simp_all add: demo_response_def)
  with s e show ?thesis
    by (simp add: flatten_demo_result)
qed

text \<open>
  C6. For an entity that occurs exactly once among the entries, the score mapping of the
  flattened response gives back the score it was paired with.
\<close>

theorem unique_entity_score_roundtrip:
  assumes "v \<in> set (Items w)"
    and "count_list (map Entity (Items w)) (Entity v) = 1"
  shows "\<exists>rsp. flatten w = Some rsp \<and> Scores rsp (Entity v) = Some (Score v)"
  using once_score [OF assms(2,1)] by (simp add: flatten_eq)

text \<open>
  The theorem on the page of three entries, for the entity that occurs once.
\<close>

theorem unique_entity_score_roundtrip_witness:
  "flatten demo_result = Some demo_response \<and> Scores demo_response ''Nirvana UK'' = Some 62"
proof -
  have "\<lparr>Entity = ''Nirvana UK'', Score = 62\<rparr> \<in> set (Items demo_result)"
    by (simp add: demo_result_def)
  moreover have "count_list (map Entity (Items demo_result))
      (Entity \<lparr>Entity = ''Nirvana UK'', Score = 62\<rparr>) = 1"
    by (simp add: demo_result_def)
  ultimately obtain rsp where "flatten demo_result = Some rsp"
    "Scores rsp (Entity \<lparr>Entity = ''Nirvana UK'', Score = 62\<rparr>) = Some (Score \<lparr>Entity = ''Nirvana UK'', Score = 62\<rparr>)"
    using unique_entity_score_roundtrip [of "\<lparr>Entity = ''Nirvana UK'', Score = 62\<rparr>" demo_result]
    by blast
  then show ?thesis
    by (simp add: flatten_demo_result)
qed

text \<open>
  C7, as the code has it. The constructor and \<open>SetClientInfo\<close> build the identification
  string as application name, \<open>/\<close>, version, \<open> ( \<close>, contact, \<open> ) \<close>: the closing
  parenthesis is followed by a space. \<open>SetClientInfo\<close> has no error to return and changes
  nothing else in the client.
\<close>

theorem userAgentHeader_built:
  "userAgentHeader (NewWS2Client parse rooturl appname version contact) =
     appname @ ''/'' @ version @ '' ( '' @ contact @ '' ) '' \<and>
   SetClientInfo c appname version contact =
     c\<lparr>userAgentHeader := appname @ ''/'' @ version @ '' ( '' @ contact @ '' ) ''\<rparr>"
  by (simp add: NewWS2Client_def SetClientInfo_def)

text \<open>
  The theorem for the application \<open>testapp\<close>.
\<close>

theorem userAgentHeader_built_witness:
  "userAgentHeader demo_client = ''testapp/1.0 ( test@example.com ) '' \<and>
   userAgentHeader (SetClientInfo demo_client ''testapp'' ''2.0'' ''dev@example.com'') =
     ''testapp/2.0 ( dev@example.com ) ''"
  using userAgentHeader_built [of parse_rejecting_ctl "''https://musicbrainz.org/ws/2''"
      "''testapp''" "''1.0''" "''test@example.com''"]
    userAgentHeader_built [of parse_rejecting_ctl "''https://musicbrainz.org/ws/2''"
      "''testapp''" "''2.0''" "''dev@example.com''" demo_client]
  by (simp add: demo_client_def)

text \<open>
  C7 as the spec words it gives the string as ending with the closing parenthesis. For
  \<open>testapp\<close>, \<open>1.0\<close>, \<open>test@example.com\<close> the string built is not
  \<open>testapp/1.0 ( test@example.com )\<close>: it has one more byte, a space.
\<close>

theorem userAgentHeader_trailing_space_counterexample:
  "userAgentHeader demo_client \<noteq> ''testapp/1.0 ( test@example.com )'' \<and>
   userAgentHeader (SetClientInfo demo_client ''testapp'' ''1.0'' ''test@example.com'') \<noteq>
     ''testapp/1.0 ( test@example.com )'' \<and>
   userAgentHeader demo_client = ''testapp/1.0 ( test@example.com ) ''"
  by (simp add: demo_client_eq SetClientInfo_def)

text \<open>
  C8. \<open>SearchFreedb\<close>, \<open>SearchRecording\<close> and \<open>SearchWork\<close> return a nil response and
  a nil error, whatever their arguments.
\<close>

theorem unimplemented_searches_return_nil:
  "SearchFreedb e1 c searchTerm limit offset = Returned (None, None) \<and>
   SearchRecording e2 c searchTerm limit offset = Returned (None, None) \<and>
   SearchWork e3 c searchTerm limit offset = Returned (None, None)"
  by (simp add: SearchFreedb_def SearchRecording_def SearchWork_def)

text \<open>
  C9. When \<open>client.Do\<close> fails on the request of one of the nine implemented methods,
  the method does not return: the process is ended by \<open>log.Fatalln\<close> with that error. And
  none of the twelve search methods ever returns a \<open>TransportFailure\<close> as its error.
\<close>

theorem transport_failure_is_fatal:
  assumes "(ep, m) \<in> set implemented"
    and "WS2RootURL c = Some u"
    and "newRequestError e ''GET'' (RequestURL (issued u c ep t l off)) = None"
    and "clientDo e (issued u c ep t l off) = Inl msg"
  shows "m e c t l off = Fatal (TransportFailure msg) \<and>
         (\<forall>m' \<in> snd ` set implemented \<union> set stubs. \<forall>e' c' t' l' off' r x.
            m' e' c' t' l' off' \<noteq> Returned (r, Some (TransportFailure x)))"
proof
  have "m = search ep" using assms(1) by (rule implemented_search)
  then show "m e c t l off = Fatal (TransportFailure msg)"
    using assms(4) by (simp add: search_issued [OF assms(2,3)])
next
  show "\<forall>m' \<in> snd ` set implemented \<union> set stubs. \<forall>e' c' t' l' off' r x.
          m' e' c' t' l' off' \<noteq> Returned (r, Some (TransportFailure x))"
  proof (intro ballI allI notI)
    fix m' e' c' t' l' off' r x
    assume m': "m' \<in> snd ` set implemented \<union> set stubs"
      and ret: "m' e' c' t' l' off' = Returned (r, Some (TransportFailure x))"
    from m' show False
    proof
      assume "m' \<in> snd ` set implemented"
      then obtain ep' where "(ep', m') \<in> set implemented" by auto
      then have "m' = search ep'" by (rule implemented_search)
      with ret have "\<exists>msg'. TransportFailure x = DecodeFailure msg'"
        by (auto dest: search_error)
      then show False by simp
    next
      assume "m' \<in> set stubs"
      with ret show False
        by (auto simp: stubs_def SearchFreedb_def SearchRecording_def SearchWork_def)
    qed
  qed
qed

text \<open>
  The theorem on a service that cannot be reached.
\<close>

theorem transport_failure_is_fatal_witness:
  "SearchArtist env_unreachable demo_client ''Nirvana'' 5 (- 1) =
     Fatal (TransportFailure ''dial tcp: connection refused'') \<and>
   SearchArtist env_answering demo_client ''Nirvana'' 5 (- 1) \<noteq>
     Returned (Some demo_response, Some (TransportFailure ''dial tcp: connection refused''))"
proof -
  have r: "WS2RootURL demo_client = Some (URL ''https://musicbrainz.org/ws/2'')"
    by (simp add: demo_client_eq)
  have n: "newRequestError env_unreachable ''GET''
      (RequestURL (issued (URL ''https://musicbrainz.org/ws/2'') demo_client ''/artist''
         ''Nirvana'' 5 (- 1))) = None"
    by (simp add: env_unreachable_def)
  have d: "clientDo env_unreachable
      (issued (URL ''https://musicbrainz.org/ws/2'') demo_client ''/artist'' ''Nirvana'' 5 (- 1))
      = Inl ''dial tcp: connection refused''"
    by (simp add: env_unreachable_def)
  have s: "SearchArtist \<in> snd ` set implemented \<union> set stubs"
    using artist_implemented by force
  from transport_failure_is_fatal [OF artist_implemented r n d] s
  show ?thesis by blast
qed

text \<open>
  C10. In every response that one of the nine implemented methods returns, with or
  without an error beside it, the keys of the score mapping are exactly the entities of the
  entity sequence.
\<close>

theorem scores_keys_are_entities:
  assumes "(ep, m) \<in> set implemented"
    and "m e c t l off = Returned (Some rsp, err)"
  shows "dom (Scores rsp) = set (Entities rsp)"
proof -
  have "m = search ep" using assms(1) by (rule implemented_search)
  with assms(2) obtain w where "Some rsp = flatten w"
    by (auto dest: search_Returned)
  then have "rsp = \<lparr>ListResponse = ListHeader w, Entities = map Entity (Items w),
               Scores = map_of (rev (map (\<lambda>x. (Entity x, Score x)) (Items w)))\<rparr>"
    by (simp add: flatten_eq)
  then show ?thesis
    using dom_scores [of "Items w"] by simp
qed

text \<open>
  The theorem on the page of three entries.
\<close>

theorem scores_keys_are_entities_witness:
  "SearchArtist env_answering demo_client ''Nirvana'' 5 (- 1) = Returned (Some demo_response, None) \<and>
   dom (Scores demo_response) = {''Nirvana'', ''Nirvana UK''} \<and>
   set (Entities demo_response) = {''Nirvana'', ''Nirvana UK''}"
proof -
  have "dom (Scores demo_response) = set (Entities demo_response)"
    using scores_keys_are_entities [OF artist_implemented run_answering] .
  moreover have "set (Entities demo_response) = {''Nirvana'', ''Nirvana UK''}"
    by (auto simp: demo_response_def)
  ultimately show ?thesis
    by (simp add: run_answering)
qed

end
